theory Spec2Isabelle
  imports Main "HOL-Library.Word"
begin

section \<open>The interrupt API of freedom-metal (metal/interrupt.h)\<close>

text \<open>
  The header declares the controller kinds, the vector modes, the table of function
  pointers a controller driver fills in (\<open>struct metal_interrupt_vtable\<close>), the handle
  (\<open>struct metal_interrupt\<close>, one pointer to such a table) and eleven inline functions.
  Each inline function is one line: \<open>return controller->vtable->slot(controller, ...)\<close>.
  None of them tests a pointer before using it.
\<close>

subsection \<open>Enumerations and scalar types\<close>

datatype metal_intr_cntrl_type =
    METAL_CPU_CONTROLLER
  | METAL_CLINT_CONTROLLER
  | METAL_CLIC_CONTROLLER
  | METAL_PLIC_CONTROLLER

datatype metal_vector_mode =
    METAL_DIRECT_MODE
  | METAL_VECTOR_MODE
  | METAL_SELECTIVE_VECTOR_MODE
  | METAL_HARDWARE_VECTOR_MODE

text \<open>
  \<open>int\<close> and \<open>unsigned int\<close> are 32 bits wide on the RISC-V targets of the library,
  \<open>unsigned long long\<close> is 64 bits wide. An \<open>int\<close> is the word of its two's complement
  representation (\<open>sint\<close> reads it); the facade does no arithmetic on any of them.
\<close>

type_synonym c_int = "32 word"
type_synonym c_uint = "32 word"
type_synonym c_ullong = "64 word"

text \<open>
  An object pointer is \<open>None\<close> (the C \<open>NULL\<close>) or \<open>Some a\<close> for an address \<open>a\<close>; a
  function pointer is \<open>None\<close> or \<open>Some f\<close> for the address \<open>f\<close> of a function.
  \<open>metal_interrupt_handler_t\<close> is a function pointer, \<open>void *\<close> an object pointer.
\<close>

type_synonym addr = nat
type_synonym fptr = nat
type_synonym metal_interrupt_handler_t = "fptr option"

subsection \<open>The capability table and the handle\<close>

record metal_interrupt_vtable =
  interrupt_init :: "fptr option"
  interrupt_register :: "fptr option"
  interrupt_enable :: "fptr option"
  interrupt_disable :: "fptr option"
  interrupt_vector_enable :: "fptr option"
  interrupt_vector_disable :: "fptr option"
  interrupt_get_threshold :: "fptr option"
  interrupt_set_threshold :: "fptr option"
  interrupt_get_priority :: "fptr option"
  interrupt_set_priority :: "fptr option"
  command_request :: "fptr option"
  mtimecmp_set :: "fptr option"

record metal_interrupt =
  vtable :: "addr option"

subsection \<open>Memory and the code of the drivers\<close>

text \<open>
  The memory holds the handle objects, the capability tables and, in \<open>priv\<close>, everything
  else a driver owns (its registers, its handler registry). An address missing from
  \<open>handles\<close> or \<open>vtables\<close> holds no object of that type: a pointer to it is invalid.
\<close>

record 'p memory =
  handles :: "addr \<rightharpoonup> metal_interrupt"
  vtables :: "addr \<rightharpoonup> metal_interrupt_vtable"
  priv :: 'p

text \<open>
  The functions behind the function pointers belong to the controller drivers, which
  the header does not contain. They are a parameter of the model: for each C function
  type of a slot, \<open>'p backend_code\<close> gives the function that sits at a code address,
  as a function from the arguments and the memory to the returned value and the memory
  it leaves. A driver function receives a non-const \<open>struct metal_interrupt *\<close> and
  may write anywhere, so it transforms the whole memory. A driver function is taken to
  return; what happens when one does not is outside the header.

  \<^item> \<open>fn_init\<close>: \<open>void (*)(struct metal_interrupt *)\<close>
  \<^item> \<open>fn_register\<close>: \<open>int (*)(struct metal_interrupt *, int, metal_interrupt_handler_t, void *)\<close>
  \<^item> \<open>fn_id\<close>: \<open>int (*)(struct metal_interrupt *, int)\<close>, the type of the slots
    \<open>interrupt_enable\<close>, \<open>interrupt_disable\<close> and \<open>interrupt_vector_disable\<close>
  \<^item> \<open>fn_vector_enable\<close>: \<open>int (*)(struct metal_interrupt *, int, metal_vector_mode)\<close>
  \<^item> \<open>fn_get_threshold\<close>: \<open>unsigned int (*)(struct metal_interrupt *)\<close>
  \<^item> \<open>fn_set_threshold\<close>: \<open>int (*)(struct metal_interrupt *, unsigned int)\<close>
  \<^item> \<open>fn_get_priority\<close>: \<open>unsigned int (*)(struct metal_interrupt *, int)\<close>
  \<^item> \<open>fn_set_priority\<close>: \<open>int (*)(struct metal_interrupt *, int, unsigned int)\<close>
  \<^item> \<open>fn_command\<close>: \<open>int (*)(struct metal_interrupt *, int, void *)\<close>
  \<^item> \<open>fn_mtimecmp\<close>: \<open>int (*)(struct metal_interrupt *, int, unsigned long long)\<close>
\<close>

record 'p backend_code =
  fn_init :: "fptr \<Rightarrow> addr option \<Rightarrow> 'p memory \<Rightarrow> unit \<times> 'p memory"
  fn_register :: "fptr \<Rightarrow> addr option \<Rightarrow> c_int \<Rightarrow> metal_interrupt_handler_t \<Rightarrow> addr option
                  \<Rightarrow> 'p memory \<Rightarrow> c_int \<times> 'p memory"
  fn_id :: "fptr \<Rightarrow> addr option \<Rightarrow> c_int \<Rightarrow> 'p memory \<Rightarrow> c_int \<times> 'p memory"
  fn_vector_enable :: "fptr \<Rightarrow> addr option \<Rightarrow> c_int \<Rightarrow> metal_vector_mode
                  \<Rightarrow> 'p memory \<Rightarrow> c_int \<times> 'p memory"
  fn_get_threshold :: "fptr \<Rightarrow> addr option \<Rightarrow> 'p memory \<Rightarrow> c_uint \<times> 'p memory"
  fn_set_threshold :: "fptr \<Rightarrow> addr option \<Rightarrow> c_uint \<Rightarrow> 'p memory \<Rightarrow> c_int \<times> 'p memory"
  fn_get_priority :: "fptr \<Rightarrow> addr option \<Rightarrow> c_int \<Rightarrow> 'p memory \<Rightarrow> c_uint \<times> 'p memory"
  fn_set_priority :: "fptr \<Rightarrow> addr option \<Rightarrow> c_int \<Rightarrow> c_uint
                  \<Rightarrow> 'p memory \<Rightarrow> c_int \<times> 'p memory"
  fn_command :: "fptr \<Rightarrow> addr option \<Rightarrow> c_int \<Rightarrow> addr option
                  \<Rightarrow> 'p memory \<Rightarrow> c_int \<times> 'p memory"
  fn_mtimecmp :: "fptr \<Rightarrow> addr option \<Rightarrow> c_int \<Rightarrow> c_ullong
                  \<Rightarrow> 'p memory \<Rightarrow> c_int \<times> 'p memory"

subsection \<open>Undefined behaviour\<close>

text \<open>
  Reading through a null or invalid pointer and calling a null function pointer are
  undefined behaviour in C: the program hands no value and no defined memory back to
  the caller. The outcome of a facade function is therefore \<open>Inl u\<close>, where \<open>u\<close> names
  the undefined step the execution reached, or \<open>Inr (r, M')\<close>, the returned value and
  the memory at return. \<open>Inl\<close> is not an error code the C caller can test.
\<close>

datatype undefined_behaviour =
    Null_controller_dereference
  | Invalid_controller_dereference
  | Null_vtable_dereference
  | Invalid_vtable_dereference
  | Null_function_call

type_synonym ('r, 'p) outcome = "undefined_behaviour + 'r \<times> 'p memory"

text \<open>The expression \<open>controller->vtable->\<close>: two pointers are followed, neither is tested.\<close>

definition load_vtable :: "'p memory \<Rightarrow> addr option \<Rightarrow> undefined_behaviour + metal_interrupt_vtable" where
  "load_vtable M controller =
     (case controller of
        None \<Rightarrow> Inl Null_controller_dereference
      | Some a \<Rightarrow>
          (case handles M a of
             None \<Rightarrow> Inl Invalid_controller_dereference
           | Some h \<Rightarrow>
               (case vtable h of
                  None \<Rightarrow> Inl Null_vtable_dereference
                | Some t \<Rightarrow>
                    (case vtables M t of
                       None \<Rightarrow> Inl Invalid_vtable_dereference
                     | Some vt \<Rightarrow> Inr vt))))"

subsection \<open>The facade: the inline functions of the header\<close>

definition metal_interrupt_init :: "'p backend_code \<Rightarrow> addr option \<Rightarrow> 'p memory \<Rightarrow> (unit, 'p) outcome" where
  "metal_interrupt_init P controller M =
     (case load_vtable M controller of
        Inl u \<Rightarrow> Inl u
      | Inr vt \<Rightarrow>
          (case interrupt_init vt of
             None \<Rightarrow> Inl Null_function_call
           | Some f \<Rightarrow> Inr (fn_init P f controller M)))"

definition metal_interrupt_register_handler ::
  "'p backend_code \<Rightarrow> addr option \<Rightarrow> c_int \<Rightarrow> metal_interrupt_handler_t \<Rightarrow> addr option
     \<Rightarrow> 'p memory \<Rightarrow> (c_int, 'p) outcome" where
  "metal_interrupt_register_handler P controller ident handler priv_data M =
     (case load_vtable M controller of
        Inl u \<Rightarrow> Inl u
      | Inr vt \<Rightarrow>
          (case interrupt_register vt of
             None \<Rightarrow> Inl Null_function_call
           | Some f \<Rightarrow> Inr (fn_register P f controller ident handler priv_data M)))"

definition metal_interrupt_enable ::
  "'p backend_code \<Rightarrow> addr option \<Rightarrow> c_int \<Rightarrow> 'p memory \<Rightarrow> (c_int, 'p) outcome" where
  "metal_interrupt_enable P controller ident M =
     (case load_vtable M controller of
        Inl u \<Rightarrow> Inl u
      | Inr vt \<Rightarrow>
          (case interrupt_enable vt of
             None \<Rightarrow> Inl Null_function_call
           | Some f \<Rightarrow> Inr (fn_id P f controller ident M)))"

definition metal_interrupt_disable ::
  "'p backend_code \<Rightarrow> addr option \<Rightarrow> c_int \<Rightarrow> 'p memory \<Rightarrow> (c_int, 'p) outcome" where
  "metal_interrupt_disable P controller ident M =
     (case load_vtable M controller of
        Inl u \<Rightarrow> Inl u
      | Inr vt \<Rightarrow>
          (case interrupt_disable vt of
             None \<Rightarrow> Inl Null_function_call
           | Some f \<Rightarrow> Inr (fn_id P f controller ident M)))"

definition metal_interrupt_vector_enable ::
  "'p backend_code \<Rightarrow> addr option \<Rightarrow> c_int \<Rightarrow> metal_vector_mode \<Rightarrow> 'p memory \<Rightarrow> (c_int, 'p) outcome" where
  "metal_interrupt_vector_enable P controller ident mode M =
     (case load_vtable M controller of
        Inl u \<Rightarrow> Inl u
      | Inr vt \<Rightarrow>
          (case interrupt_vector_enable vt of
             None \<Rightarrow> Inl Null_function_call
           | Some f \<Rightarrow> Inr (fn_vector_enable P f controller ident mode M)))"

definition metal_interrupt_set_threshold ::
  "'p backend_code \<Rightarrow> addr option \<Rightarrow> c_uint \<Rightarrow> 'p memory \<Rightarrow> (c_int, 'p) outcome" where
  "metal_interrupt_set_threshold P controller level M =
     (case load_vtable M controller of
        Inl u \<Rightarrow> Inl u
      | Inr vt \<Rightarrow>
          (case interrupt_set_threshold vt of
             None \<Rightarrow> Inl Null_function_call
           | Some f \<Rightarrow> Inr (fn_set_threshold P f controller level M)))"

definition metal_interrupt_get_threshold ::
  "'p backend_code \<Rightarrow> addr option \<Rightarrow> 'p memory \<Rightarrow> (c_uint, 'p) outcome" where
  "metal_interrupt_get_threshold P controller M =
     (case load_vtable M controller of
        Inl u \<Rightarrow> Inl u
      | Inr vt \<Rightarrow>
          (case interrupt_get_threshold vt of
             None \<Rightarrow> Inl Null_function_call
           | Some f \<Rightarrow> Inr (fn_get_threshold P f controller M)))"

definition metal_interrupt_set_priority ::
  "'p backend_code \<Rightarrow> addr option \<Rightarrow> c_int \<Rightarrow> c_uint \<Rightarrow> 'p memory \<Rightarrow> (c_int, 'p) outcome" where
  "metal_interrupt_set_priority P controller ident priority M =
     (case load_vtable M controller of
        Inl u \<Rightarrow> Inl u
      | Inr vt \<Rightarrow>
          (case interrupt_set_priority vt of
             None \<Rightarrow> Inl Null_function_call
           | Some f \<Rightarrow> Inr (fn_set_priority P f controller ident priority M)))"

definition metal_interrupt_get_priority ::
  "'p backend_code \<Rightarrow> addr option \<Rightarrow> c_int \<Rightarrow> 'p memory \<Rightarrow> (c_uint, 'p) outcome" where
  "metal_interrupt_get_priority P controller ident M =
     (case load_vtable M controller of
        Inl u \<Rightarrow> Inl u
      | Inr vt \<Rightarrow>
          (case interrupt_get_priority vt of
             None \<Rightarrow> Inl Null_function_call
           | Some f \<Rightarrow> Inr (fn_get_priority P f controller ident M)))"

definition metal_interrupt_vector_disable ::
  "'p backend_code \<Rightarrow> addr option \<Rightarrow> c_int \<Rightarrow> 'p memory \<Rightarrow> (c_int, 'p) outcome" where
  "metal_interrupt_vector_disable P controller ident M =
     (case load_vtable M controller of
        Inl u \<Rightarrow> Inl u
      | Inr vt \<Rightarrow>
          (case interrupt_vector_disable vt of
             None \<Rightarrow> Inl Null_function_call
           | Some f \<Rightarrow> Inr (fn_id P f controller ident M)))"

text \<open>
  The header's \<open>_metal_interrupt_command_request\<close>; an Isabelle name cannot begin with
  an underscore.
\<close>

definition metal_interrupt_command_request ::
  "'p backend_code \<Rightarrow> addr option \<Rightarrow> c_int \<Rightarrow> addr option \<Rightarrow> 'p memory \<Rightarrow> (c_int, 'p) outcome" where
  "metal_interrupt_command_request P controller cmd data M =
     (case load_vtable M controller of
        Inl u \<Rightarrow> Inl u
      | Inr vt \<Rightarrow>
          (case command_request vt of
             None \<Rightarrow> Inl Null_function_call
           | Some f \<Rightarrow> Inr (fn_command P f controller cmd data M)))"

text \<open>
  Whether a facade call can return at all: the handle and its table are valid objects
  and the slot the function reads holds a function.
\<close>

definition slot_present ::
  "'p memory \<Rightarrow> addr option \<Rightarrow> (metal_interrupt_vtable \<Rightarrow> fptr option) \<Rightarrow> bool" where
  "slot_present M controller slot =
     (case load_vtable M controller of Inl u \<Rightarrow> False | Inr vt \<Rightarrow> slot vt \<noteq> None)"

text \<open>
  The dispatch data of a memory are its handle objects and its capability tables;
  \<open>priv\<close> is the rest. Two memories have the same dispatch data when no handle object
  and no capability table differs between them.
\<close>

definition same_dispatch_data :: "'p memory \<Rightarrow> 'p memory \<Rightarrow> bool" where
  "same_dispatch_data M M' = (handles M' = handles M \<and> vtables M' = vtables M)"




text \<open>What the caller receives: the undefined step, or the returned value.\<close>

definition returned_value :: "('r, 'p) outcome \<Rightarrow> undefined_behaviour + 'r" where
  "returned_value out = (case out of Inl u \<Rightarrow> Inl u | Inr (r, M') \<Rightarrow> Inr r)"

subsection \<open>The controller directory\<close>

text \<open>
  Modelled from the spec: the directory that \<open>metal_interrupt_get_controller\<close> reads
  is not in the source at hand. The spec (4.3, 6): each backend registers
  \<open>(kind, index) -> Handle\<close> into the directory once, during setup, and the directory
  is immutable afterwards. The directory is the list of the registrations made during
  setup.
\<close>

type_synonym directory = "((metal_intr_cntrl_type \<times> c_int) \<times> addr) list"

text \<open>
  Modelled from the spec: \<open>metal_interrupt_get_controller\<close> is declared in the header
  (lines 85 and 86) and documented to return the handle, "or NULL if none is found for
  the requested label"; its body is not in the source at hand. The spec (4.3):
  \<open>lookup(kind, index)\<close> returns the handle a backend of that kind and index was
  registered with, and "not found" (no handle) otherwise. "Not found" is the null
  pointer \<open>None\<close>.
\<close>

definition metal_interrupt_get_controller ::
  "directory \<Rightarrow> metal_intr_cntrl_type \<Rightarrow> c_int \<Rightarrow> addr option" where
  "metal_interrupt_get_controller dir cntrl ident = map_of dir (cntrl, ident)"

subsection \<open>A backend's disable function\<close>

text \<open>
  Modelled from the spec: the private state of a controller instance; the drivers are
  not in the source at hand. The spec (2, 3, 4.4, 4.5): each controller instance has a
  handler registry from interrupt ids to (callback, context), and enabled/disabled is a
  flag per interrupt id, apart from the registry and from the vector mode.
\<close>

record controller_state =
  registry :: "c_int \<rightharpoonup> metal_interrupt_handler_t \<times> addr option"
  enabled :: "c_int \<Rightarrow> bool"

type_synonym driver_state = "addr \<Rightarrow> controller_state"

text \<open>
  Modelled from the spec: the function a driver puts behind the \<open>interrupt_disable\<close>
  slot; the drivers are not in the source at hand. The spec (4.4): disabling an id
  leaves the handler entry in place but inert. The spec (4.1, 4.2, 7): a backend
  validates the id against its own range, and an operation either fully succeeds, with
  a return that indicates success (0 in the header's words), or fails with no mutation.
  \<open>valid_id\<close> is the backend's range of ids; the failure code is \<open>-1\<close>.
\<close>

definition spec_interrupt_disable ::
  "(c_int \<Rightarrow> bool) \<Rightarrow> addr option \<Rightarrow> c_int \<Rightarrow> driver_state memory \<Rightarrow> c_int \<times> driver_state memory" where
  "spec_interrupt_disable valid_id controller ident M =
     (case controller of
        None \<Rightarrow> (- 1, M)
      | Some a \<Rightarrow>
          if valid_id ident
          then (0, M\<lparr>priv := (priv M)(a := (priv M a)\<lparr>enabled := (enabled (priv M a))(ident := False)\<rparr>)\<rparr>)
          else (- 1, M))"

subsection \<open>Example data\<close>

text \<open>
  A driver whose functions only record that they were called, and with what; the
  record is the private state. The returned values are fixed.
\<close>

datatype backend_call =
    Called_init fptr "addr option"
  | Called_register fptr "addr option" c_int metal_interrupt_handler_t "addr option"
  | Called_id fptr "addr option" c_int
  | Called_vector_enable fptr "addr option" c_int metal_vector_mode
  | Called_get_threshold fptr "addr option"
  | Called_set_threshold fptr "addr option" c_uint
  | Called_get_priority fptr "addr option" c_int
  | Called_set_priority fptr "addr option" c_int c_uint
  | Called_command fptr "addr option" c_int "addr option"
  | Called_mtimecmp fptr "addr option" c_int c_ullong

definition record_call :: "backend_call \<Rightarrow> backend_call list memory \<Rightarrow> backend_call list memory" where
  "record_call e M = M\<lparr>priv := priv M @ [e]\<rparr>"

definition recording_code :: "backend_call list backend_code" where
  "recording_code =
     \<lparr>fn_init = (\<lambda>f c M. ((), record_call (Called_init f c) M)),
      fn_register = (\<lambda>f c i h d M. (0, record_call (Called_register f c i h d) M)),
      fn_id = (\<lambda>f c i M. (0, record_call (Called_id f c i) M)),
      fn_vector_enable = (\<lambda>f c i m M. (0, record_call (Called_vector_enable f c i m) M)),
      fn_get_threshold = (\<lambda>f c M. (2, record_call (Called_get_threshold f c) M)),
      fn_set_threshold = (\<lambda>f c l M. (0, record_call (Called_set_threshold f c l) M)),
      fn_get_priority = (\<lambda>f c i M. (3, record_call (Called_get_priority f c i) M)),
      fn_set_priority = (\<lambda>f c i p M. (0, record_call (Called_set_priority f c i p) M)),
      fn_command = (\<lambda>f c k d M. (0, record_call (Called_command f c k d) M)),
      fn_mtimecmp = (\<lambda>f c i t M. (0, record_call (Called_mtimecmp f c i t) M))\<rparr>"

text \<open>Capability tables: every slot filled, no slot filled, only the timer slot filled.\<close>

definition full_table :: metal_interrupt_vtable where
  "full_table =
     \<lparr>interrupt_init = Some 101, interrupt_register = Some 102, interrupt_enable = Some 103,
      interrupt_disable = Some 104, interrupt_vector_enable = Some 105,
      interrupt_vector_disable = Some 106, interrupt_get_threshold = Some 107,
      interrupt_set_threshold = Some 108, interrupt_get_priority = Some 109,
      interrupt_set_priority = Some 110, command_request = Some 111, mtimecmp_set = Some 112\<rparr>"

definition empty_table :: metal_interrupt_vtable where
  "empty_table =
     \<lparr>interrupt_init = None, interrupt_register = None, interrupt_enable = None,
      interrupt_disable = None, interrupt_vector_enable = None,
      interrupt_vector_disable = None, interrupt_get_threshold = None,
      interrupt_set_threshold = None, interrupt_get_priority = None,
      interrupt_set_priority = None, command_request = None, mtimecmp_set = None\<rparr>"

definition timer_only_table :: metal_interrupt_vtable where
  "timer_only_table = empty_table\<lparr>mtimecmp_set := Some 112\<rparr>"

text \<open>The table of a controller without priorities: the two priority slots are empty.\<close>

definition no_priority_table :: metal_interrupt_vtable where
  "no_priority_table =
     full_table\<lparr>interrupt_get_priority := None, interrupt_set_priority := None\<rparr>"

text \<open>A memory with one handle, at address 16, whose table is at address 32.\<close>

definition one_controller :: "metal_interrupt_vtable \<Rightarrow> 'p \<Rightarrow> 'p memory" where
  "one_controller vt p =
     \<lparr>handles = [16 \<mapsto> \<lparr>vtable = Some 32\<rparr>], vtables = [32 \<mapsto> vt], priv = p\<rparr>"

text \<open>A second memory: the handle is at address 48, its table at address 64.\<close>

definition other_controller :: "metal_interrupt_vtable \<Rightarrow> 'p \<Rightarrow> 'p memory" where
  "other_controller vt p =
     \<lparr>handles = [48 \<mapsto> \<lparr>vtable = Some 64\<rparr>], vtables = [64 \<mapsto> vt], priv = p\<rparr>"


text \<open>A driver whose only function is the modelled disable, accepting the ids below 32.\<close>

definition disable_only_code :: "driver_state backend_code" where
  "disable_only_code =
     \<lparr>fn_init = (\<lambda>f c M. ((), M)),
      fn_register = (\<lambda>f c i h d M. (- 1, M)),
      fn_id = (\<lambda>f. spec_interrupt_disable (\<lambda>i. i < 32)),
      fn_vector_enable = (\<lambda>f c i m M. (- 1, M)),
      fn_get_threshold = (\<lambda>f c M. (0, M)),
      fn_set_threshold = (\<lambda>f c l M. (- 1, M)),
      fn_get_priority = (\<lambda>f c i M. (0, M)),
      fn_set_priority = (\<lambda>f c i p M. (- 1, M)),
      fn_command = (\<lambda>f c k d M. (- 1, M)),
      fn_mtimecmp = (\<lambda>f c i t M. (- 1, M))\<rparr>"

definition all_enabled :: driver_state where
  "all_enabled = (\<lambda>a. \<lparr>registry = Map.empty, enabled = (\<lambda>i. True)\<rparr>)"

definition example_directory :: directory where
  "example_directory =
     [((METAL_CPU_CONTROLLER, 0), 16), ((METAL_PLIC_CONTROLLER, 0), 48)]"

section \<open>Properties\<close>

lemmas facade_defs =
  metal_interrupt_init_def metal_interrupt_register_handler_def metal_interrupt_enable_def
  metal_interrupt_disable_def metal_interrupt_vector_enable_def
  metal_interrupt_set_threshold_def metal_interrupt_get_threshold_def
  metal_interrupt_set_priority_def metal_interrupt_get_priority_def
  metal_interrupt_vector_disable_def metal_interrupt_command_request_def

lemma load_vtable_one_controller:
  "load_vtable (one_controller vt p) (Some 16) = Inr vt"
  by (simp add: load_vtable_def one_controller_def)

lemma load_vtable_other_controller:
  "load_vtable (other_controller vt p) (Some 48) = Inr vt"
  by (simp add: load_vtable_def other_controller_def)

lemma load_vtable_NULL:
  "load_vtable M None = Inl Null_controller_dereference"
  by (simp add: load_vtable_def)

lemma record_call_one_controller:
  "record_call e (one_controller vt p) = one_controller vt (p @ [e])"
  by (simp add: record_call_def one_controller_def)

lemma priv_one_controller:
  "priv (one_controller vt p) = p"
  by (simp add: one_controller_def)

lemma priv_update_one_controller:
  "(one_controller vt p)\<lparr>priv := q\<rparr> = one_controller vt q"
  by (simp add: one_controller_def)

lemma record_call_other_controller:
  "record_call e (other_controller vt p) = other_controller vt (p @ [e])"
  by (simp add: record_call_def other_controller_def)


subsection \<open>The shape of a facade function\<close>

text \<open>
  Every facade function has the same body up to the slot it reads and the call it
  makes. What the caller sees of such a body, in value and in memory:
\<close>

lemma dispatch_returns_iff:
  "(\<not> isl (case load_vtable M controller of
        Inl u \<Rightarrow> Inl u
      | Inr vt \<Rightarrow>
          (case slot vt of
             None \<Rightarrow> Inl Null_function_call
           | Some f \<Rightarrow> Inr (call f)))) =
   slot_present M controller slot"
  by (auto simp: slot_present_def split: sum.split option.split)

lemma dispatch_returned_value:
  "returned_value
     (case load_vtable M controller of
        Inl u \<Rightarrow> Inl u
      | Inr vt \<Rightarrow>
          (case slot vt of
             None \<Rightarrow> Inl Null_function_call
           | Some f \<Rightarrow> Inr (call f))) =
   (case load_vtable M controller of
        Inl u \<Rightarrow> Inl u
      | Inr vt \<Rightarrow>
          (case slot vt of
             None \<Rightarrow> Inl Null_function_call
           | Some f \<Rightarrow> Inr (fst (call f))))"
  by (auto simp: returned_value_def split: sum.split option.split)



subsection \<open>Absent slots\<close>

text \<open>
  C1, as the code has it. For every facade function and every valid handle whose
  capability table has no function in the slot the facade function reads, the call goes
  through the null function pointer: the behaviour is undefined. The facade has no test
  for an absent slot and no \<open>UnsupportedOperation\<close> result; no driver function runs and
  nothing is returned to the caller.
\<close>

theorem absent_slot_calls_null_pointer:
  assumes "load_vtable M controller = Inr vt"
  shows
   "(interrupt_init vt = None \<longrightarrow>
       metal_interrupt_init P controller M = Inl Null_function_call) \<and>
    (interrupt_register vt = None \<longrightarrow>
       metal_interrupt_register_handler P controller ident handler priv_data M = Inl Null_function_call) \<and>
    (interrupt_enable vt = None \<longrightarrow>
       metal_interrupt_enable P controller ident M = Inl Null_function_call) \<and>
    (interrupt_disable vt = None \<longrightarrow>
       metal_interrupt_disable P controller ident M = Inl Null_function_call) \<and>
    (interrupt_vector_enable vt = None \<longrightarrow>
       metal_interrupt_vector_enable P controller ident mode M = Inl Null_function_call) \<and>
    (interrupt_set_threshold vt = None \<longrightarrow>
       metal_interrupt_set_threshold P controller level M = Inl Null_function_call) \<and>
    (interrupt_get_threshold vt = None \<longrightarrow>
       metal_interrupt_get_threshold P controller M = Inl Null_function_call) \<and>
    (interrupt_set_priority vt = None \<longrightarrow>
       metal_interrupt_set_priority P controller ident priority M = Inl Null_function_call) \<and>
    (interrupt_get_priority vt = None \<longrightarrow>
       metal_interrupt_get_priority P controller ident M = Inl Null_function_call) \<and>
    (interrupt_vector_disable vt = None \<longrightarrow>
       metal_interrupt_vector_disable P controller ident M = Inl Null_function_call) \<and>
    (command_request vt = None \<longrightarrow>
       metal_interrupt_command_request P controller cmd data M = Inl Null_function_call)"
  using assms by (simp add: facade_defs)

theorem absent_slot_calls_null_pointer_witness:
  "load_vtable (one_controller empty_table []) (Some 16) = Inr empty_table \<and>
   interrupt_init empty_table = None \<and>
   metal_interrupt_init recording_code (Some 16) (one_controller empty_table []) = Inl Null_function_call \<and>
   interrupt_register empty_table = None \<and>
   metal_interrupt_register_handler recording_code (Some 16) 5 (Some 200) None (one_controller empty_table []) = Inl Null_function_call \<and>
   interrupt_enable empty_table = None \<and>
   metal_interrupt_enable recording_code (Some 16) 5 (one_controller empty_table []) = Inl Null_function_call \<and>
   interrupt_disable empty_table = None \<and>
   metal_interrupt_disable recording_code (Some 16) 5 (one_controller empty_table []) = Inl Null_function_call \<and>
   interrupt_vector_enable empty_table = None \<and>
   metal_interrupt_vector_enable recording_code (Some 16) 5 METAL_VECTOR_MODE (one_controller empty_table []) = Inl Null_function_call \<and>
   interrupt_set_threshold empty_table = None \<and>
   metal_interrupt_set_threshold recording_code (Some 16) 2 (one_controller empty_table []) = Inl Null_function_call \<and>
   interrupt_get_threshold empty_table = None \<and>
   metal_interrupt_get_threshold recording_code (Some 16) (one_controller empty_table []) = Inl Null_function_call \<and>
   interrupt_set_priority empty_table = None \<and>
   metal_interrupt_set_priority recording_code (Some 16) 5 3 (one_controller empty_table []) = Inl Null_function_call \<and>
   interrupt_get_priority empty_table = None \<and>
   metal_interrupt_get_priority recording_code (Some 16) 5 (one_controller empty_table []) = Inl Null_function_call \<and>
   interrupt_vector_disable empty_table = None \<and>
   metal_interrupt_vector_disable recording_code (Some 16) 5 (one_controller empty_table []) = Inl Null_function_call \<and>
   command_request empty_table = None \<and>
   metal_interrupt_command_request recording_code (Some 16) 7 None (one_controller empty_table []) = Inl Null_function_call"
  using absent_slot_calls_null_pointer
    [where M = "one_controller empty_table []" and controller = "Some 16"
       and vt = empty_table and P = recording_code and ident = 5 and handler = "Some 200"
       and priv_data = None and mode = METAL_VECTOR_MODE and level = 2 and priority = 3
       and cmd = 7 and data = None]
  by (simp add: load_vtable_one_controller empty_table_def)

text \<open>
  C1 as the spec states it fails: with an empty capability table, enabling a vector
  invokes the absent slot instead of returning \<open>UnsupportedOperation\<close>.
\<close>

theorem vector_enable_absent_slot_counterexample:
  "metal_interrupt_vector_enable recording_code (Some 16) 5 METAL_VECTOR_MODE
     (one_controller empty_table []) = Inl Null_function_call"
  by (simp add: metal_interrupt_vector_enable_def load_vtable_one_controller empty_table_def)

subsection \<open>Null handles\<close>

text \<open>
  C2, as the code has it. Every facade function called with a null controller handle
  reads \<open>controller->vtable\<close> through the null pointer: the behaviour is undefined.
  Nothing detects the null handle and no \<open>InvalidHandle\<close> or other error value comes
  back.
\<close>

theorem null_controller_is_dereferenced:
  "metal_interrupt_init P None M = Inl Null_controller_dereference \<and>
   metal_interrupt_register_handler P None ident handler priv_data M = Inl Null_controller_dereference \<and>
   metal_interrupt_enable P None ident M = Inl Null_controller_dereference \<and>
   metal_interrupt_disable P None ident M = Inl Null_controller_dereference \<and>
   metal_interrupt_vector_enable P None ident mode M = Inl Null_controller_dereference \<and>
   metal_interrupt_set_threshold P None level M = Inl Null_controller_dereference \<and>
   metal_interrupt_get_threshold P None M = Inl Null_controller_dereference \<and>
   metal_interrupt_set_priority P None ident priority M = Inl Null_controller_dereference \<and>
   metal_interrupt_get_priority P None ident M = Inl Null_controller_dereference \<and>
   metal_interrupt_vector_disable P None ident M = Inl Null_controller_dereference \<and>
   metal_interrupt_command_request P None cmd data M = Inl Null_controller_dereference"
  by (simp add: facade_defs load_vtable_NULL)

text \<open>
  C2 as the spec states it fails: enabling interrupt 5 on the null handle is not caught.
\<close>

theorem enable_null_controller_counterexample:
  "metal_interrupt_enable recording_code None 5 (one_controller full_table [])
     = Inl Null_controller_dereference"
  by (simp add: metal_interrupt_enable_def load_vtable_NULL)

subsection \<open>Present slots\<close>

text \<open>
  C3. For every facade function called on a valid handle whose slot holds a function
  \<open>f\<close>, the outcome is the outcome of one call of \<open>f\<close> on the memory the facade was
  entered with: \<open>f\<close> receives the controller and the caller's arguments as they are
  (any interrupt id, no range check), and the value and the memory \<open>f\<close> leaves are the
  value and the memory of the facade call.
\<close>

theorem present_slot_forwards:
  assumes "load_vtable M controller = Inr vt"
  shows
   "(\<forall>f. interrupt_init vt = Some f \<longrightarrow>
       metal_interrupt_init P controller M =
       Inr (fn_init P f controller M)) \<and>
    (\<forall>f. interrupt_register vt = Some f \<longrightarrow>
       metal_interrupt_register_handler P controller ident handler priv_data M =
       Inr (fn_register P f controller ident handler priv_data M)) \<and>
    (\<forall>f. interrupt_enable vt = Some f \<longrightarrow>
       metal_interrupt_enable P controller ident M =
       Inr (fn_id P f controller ident M)) \<and>
    (\<forall>f. interrupt_disable vt = Some f \<longrightarrow>
       metal_interrupt_disable P controller ident M =
       Inr (fn_id P f controller ident M)) \<and>
    (\<forall>f. interrupt_vector_enable vt = Some f \<longrightarrow>
       metal_interrupt_vector_enable P controller ident mode M =
       Inr (fn_vector_enable P f controller ident mode M)) \<and>
    (\<forall>f. interrupt_set_threshold vt = Some f \<longrightarrow>
       metal_interrupt_set_threshold P controller level M =
       Inr (fn_set_threshold P f controller level M)) \<and>
    (\<forall>f. interrupt_get_threshold vt = Some f \<longrightarrow>
       metal_interrupt_get_threshold P controller M =
       Inr (fn_get_threshold P f controller M)) \<and>
    (\<forall>f. interrupt_set_priority vt = Some f \<longrightarrow>
       metal_interrupt_set_priority P controller ident priority M =
       Inr (fn_set_priority P f controller ident priority M)) \<and>
    (\<forall>f. interrupt_get_priority vt = Some f \<longrightarrow>
       metal_interrupt_get_priority P controller ident M =
       Inr (fn_get_priority P f controller ident M)) \<and>
    (\<forall>f. interrupt_vector_disable vt = Some f \<longrightarrow>
       metal_interrupt_vector_disable P controller ident M =
       Inr (fn_id P f controller ident M)) \<and>
    (\<forall>f. command_request vt = Some f \<longrightarrow>
       metal_interrupt_command_request P controller cmd data M =
       Inr (fn_command P f controller cmd data M))"
  using assms by (simp add: facade_defs)

theorem present_slot_forwards_witness:
  "load_vtable (one_controller full_table []) (Some 16) = Inr full_table \<and>
   interrupt_init full_table = Some 101 \<and>
   metal_interrupt_init recording_code (Some 16) (one_controller full_table []) =
     Inr ((), (one_controller full_table [Called_init 101 (Some 16)])) \<and>
   interrupt_register full_table = Some 102 \<and>
   metal_interrupt_register_handler recording_code (Some 16) 5 (Some 200) None (one_controller full_table []) =
     Inr (0, (one_controller full_table [Called_register 102 (Some 16) 5 (Some 200) None])) \<and>
   interrupt_enable full_table = Some 103 \<and>
   metal_interrupt_enable recording_code (Some 16) 5 (one_controller full_table []) =
     Inr (0, (one_controller full_table [Called_id 103 (Some 16) 5])) \<and>
   interrupt_disable full_table = Some 104 \<and>
   metal_interrupt_disable recording_code (Some 16) 5 (one_controller full_table []) =
     Inr (0, (one_controller full_table [Called_id 104 (Some 16) 5])) \<and>
   interrupt_vector_enable full_table = Some 105 \<and>
   metal_interrupt_vector_enable recording_code (Some 16) 5 METAL_VECTOR_MODE (one_controller full_table []) =
     Inr (0, (one_controller full_table [Called_vector_enable 105 (Some 16) 5 METAL_VECTOR_MODE])) \<and>
   interrupt_set_threshold full_table = Some 108 \<and>
   metal_interrupt_set_threshold recording_code (Some 16) 2 (one_controller full_table []) =
     Inr (0, (one_controller full_table [Called_set_threshold 108 (Some 16) 2])) \<and>
   interrupt_get_threshold full_table = Some 107 \<and>
   metal_interrupt_get_threshold recording_code (Some 16) (one_controller full_table []) =
     Inr (2, (one_controller full_table [Called_get_threshold 107 (Some 16)])) \<and>
   interrupt_set_priority full_table = Some 110 \<and>
   metal_interrupt_set_priority recording_code (Some 16) 5 3 (one_controller full_table []) =
     Inr (0, (one_controller full_table [Called_set_priority 110 (Some 16) 5 3])) \<and>
   interrupt_get_priority full_table = Some 109 \<and>
   metal_interrupt_get_priority recording_code (Some 16) 5 (one_controller full_table []) =
     Inr (3, (one_controller full_table [Called_get_priority 109 (Some 16) 5])) \<and>
   interrupt_vector_disable full_table = Some 106 \<and>
   metal_interrupt_vector_disable recording_code (Some 16) 5 (one_controller full_table []) =
     Inr (0, (one_controller full_table [Called_id 106 (Some 16) 5])) \<and>
   command_request full_table = Some 111 \<and>
   metal_interrupt_command_request recording_code (Some 16) 7 None (one_controller full_table []) =
     Inr (0, (one_controller full_table [Called_command 111 (Some 16) 7 None]))"
  using present_slot_forwards
    [where M = "one_controller full_table []" and controller = "Some 16"
       and vt = full_table and P = recording_code and ident = 5 and handler = "Some 200"
       and priv_data = None and mode = METAL_VECTOR_MODE and level = 2 and priority = 3
       and cmd = 7 and data = None]
  by (simp add: load_vtable_one_controller full_table_def recording_code_def
        record_call_one_controller)

subsection \<open>The timer slot\<close>

text \<open>
  C4, as the code has it. The header has eleven facade functions, one for each slot of
  the capability table except \<open>mtimecmp_set\<close>: there is no \<open>timer_compare_set\<close>
  facade function. No facade function reads the \<open>mtimecmp_set\<close> slot: on a handle
  whose table fills that slot only, each of the eleven finds its own slot null. And no
  facade function runs a driver function of the slot's type
  \<open>int (*)(struct metal_interrupt *, int, unsigned long long)\<close>: replacing that code
  changes no outcome.
\<close>

theorem timer_slot_has_no_facade_function:
  "(load_vtable M controller = Inr (empty_table\<lparr>mtimecmp_set := t\<rparr>) \<longrightarrow>
    metal_interrupt_init P controller M = Inl Null_function_call \<and>
    metal_interrupt_register_handler P controller ident handler priv_data M = Inl Null_function_call \<and>
    metal_interrupt_enable P controller ident M = Inl Null_function_call \<and>
    metal_interrupt_disable P controller ident M = Inl Null_function_call \<and>
    metal_interrupt_vector_enable P controller ident mode M = Inl Null_function_call \<and>
    metal_interrupt_set_threshold P controller level M = Inl Null_function_call \<and>
    metal_interrupt_get_threshold P controller M = Inl Null_function_call \<and>
    metal_interrupt_set_priority P controller ident priority M = Inl Null_function_call \<and>
    metal_interrupt_get_priority P controller ident M = Inl Null_function_call \<and>
    metal_interrupt_vector_disable P controller ident M = Inl Null_function_call \<and>
    metal_interrupt_command_request P controller cmd data M = Inl Null_function_call) \<and>
   metal_interrupt_init (P\<lparr>fn_mtimecmp := g\<rparr>) controller M =
     metal_interrupt_init P controller M \<and>
   metal_interrupt_register_handler (P\<lparr>fn_mtimecmp := g\<rparr>) controller ident handler priv_data M =
     metal_interrupt_register_handler P controller ident handler priv_data M \<and>
   metal_interrupt_enable (P\<lparr>fn_mtimecmp := g\<rparr>) controller ident M =
     metal_interrupt_enable P controller ident M \<and>
   metal_interrupt_disable (P\<lparr>fn_mtimecmp := g\<rparr>) controller ident M =
     metal_interrupt_disable P controller ident M \<and>
   metal_interrupt_vector_enable (P\<lparr>fn_mtimecmp := g\<rparr>) controller ident mode M =
     metal_interrupt_vector_enable P controller ident mode M \<and>
   metal_interrupt_set_threshold (P\<lparr>fn_mtimecmp := g\<rparr>) controller level M =
     metal_interrupt_set_threshold P controller level M \<and>
   metal_interrupt_get_threshold (P\<lparr>fn_mtimecmp := g\<rparr>) controller M =
     metal_interrupt_get_threshold P controller M \<and>
   metal_interrupt_set_priority (P\<lparr>fn_mtimecmp := g\<rparr>) controller ident priority M =
     metal_interrupt_set_priority P controller ident priority M \<and>
   metal_interrupt_get_priority (P\<lparr>fn_mtimecmp := g\<rparr>) controller ident M =
     metal_interrupt_get_priority P controller ident M \<and>
   metal_interrupt_vector_disable (P\<lparr>fn_mtimecmp := g\<rparr>) controller ident M =
     metal_interrupt_vector_disable P controller ident M \<and>
   metal_interrupt_command_request (P\<lparr>fn_mtimecmp := g\<rparr>) controller cmd data M =
     metal_interrupt_command_request P controller cmd data M"
  by (simp add: facade_defs empty_table_def split: sum.split option.split)

theorem timer_slot_has_no_facade_function_witness:
  "load_vtable (one_controller timer_only_table []) (Some 16) =
     Inr (empty_table\<lparr>mtimecmp_set := Some 112\<rparr>) \<and>
   metal_interrupt_init recording_code (Some 16) (one_controller timer_only_table []) = Inl Null_function_call \<and>
   metal_interrupt_register_handler recording_code (Some 16) 5 (Some 200) None (one_controller timer_only_table []) = Inl Null_function_call \<and>
   metal_interrupt_enable recording_code (Some 16) 5 (one_controller timer_only_table []) = Inl Null_function_call \<and>
   metal_interrupt_disable recording_code (Some 16) 5 (one_controller timer_only_table []) = Inl Null_function_call \<and>
   metal_interrupt_vector_enable recording_code (Some 16) 5 METAL_VECTOR_MODE (one_controller timer_only_table []) = Inl Null_function_call \<and>
   metal_interrupt_set_threshold recording_code (Some 16) 2 (one_controller timer_only_table []) = Inl Null_function_call \<and>
   metal_interrupt_get_threshold recording_code (Some 16) (one_controller timer_only_table []) = Inl Null_function_call \<and>
   metal_interrupt_set_priority recording_code (Some 16) 5 3 (one_controller timer_only_table []) = Inl Null_function_call \<and>
   metal_interrupt_get_priority recording_code (Some 16) 5 (one_controller timer_only_table []) = Inl Null_function_call \<and>
   metal_interrupt_vector_disable recording_code (Some 16) 5 (one_controller timer_only_table []) = Inl Null_function_call \<and>
   metal_interrupt_command_request recording_code (Some 16) 7 None (one_controller timer_only_table []) = Inl Null_function_call"
  using timer_slot_has_no_facade_function
    [where M = "one_controller timer_only_table []" and controller = "Some 16"
       and t = "Some 112" and P = recording_code and ident = 5 and handler = "Some 200"
       and priv_data = None and mode = METAL_VECTOR_MODE and level = 2 and priority = 3
       and cmd = 7 and data = None]
  by (simp add: load_vtable_one_controller timer_only_table_def)

text \<open>
  C4 as the spec states it fails: with a driver that supplies the timer function and
  nothing else, no facade function of the header gets through to it. The calls below
  are all the facade functions there are.
\<close>

theorem no_timer_compare_set_counterexample:
  "metal_interrupt_init recording_code (Some 16) (one_controller timer_only_table []) = Inl Null_function_call \<and>
   metal_interrupt_register_handler recording_code (Some 16) 5 (Some 200) None (one_controller timer_only_table []) = Inl Null_function_call \<and>
   metal_interrupt_enable recording_code (Some 16) 5 (one_controller timer_only_table []) = Inl Null_function_call \<and>
   metal_interrupt_disable recording_code (Some 16) 5 (one_controller timer_only_table []) = Inl Null_function_call \<and>
   metal_interrupt_vector_enable recording_code (Some 16) 5 METAL_VECTOR_MODE (one_controller timer_only_table []) = Inl Null_function_call \<and>
   metal_interrupt_set_threshold recording_code (Some 16) 2 (one_controller timer_only_table []) = Inl Null_function_call \<and>
   metal_interrupt_get_threshold recording_code (Some 16) (one_controller timer_only_table []) = Inl Null_function_call \<and>
   metal_interrupt_set_priority recording_code (Some 16) 5 3 (one_controller timer_only_table []) = Inl Null_function_call \<and>
   metal_interrupt_get_priority recording_code (Some 16) 5 (one_controller timer_only_table []) = Inl Null_function_call \<and>
   metal_interrupt_vector_disable recording_code (Some 16) 5 (one_controller timer_only_table []) = Inl Null_function_call \<and>
   metal_interrupt_command_request recording_code (Some 16) 7 None (one_controller timer_only_table []) = Inl Null_function_call"
  by (simp add: facade_defs load_vtable_one_controller timer_only_table_def empty_table_def)

subsection \<open>What a facade call gives back\<close>

text \<open>
  C5, as the code has it. A facade call is one synchronous call of the driver function
  in the slot (a driver function is taken to return). The call returns to its caller
  exactly when the handle and its table are valid objects and the slot holds a
  function, and then the caller receives the value that function returned, unchanged:
  an \<open>int\<close> status, or the \<open>unsigned int\<close> level for \<open>get_threshold\<close> and
  \<open>get_priority\<close>. For \<open>metal_interrupt_init\<close> that value is nothing (the function
  is \<open>void\<close>), whatever the driver's initialisation did, so a failed initialisation is
  not reported as a result value. In every other case the call is undefined behaviour,
  which is not an error value.
\<close>

theorem facade_call_hands_back_backend_value:
  "(\<not> isl (metal_interrupt_init P controller M)) =
     slot_present M controller interrupt_init \<and>
   (\<not> isl (metal_interrupt_register_handler P controller ident handler priv_data M)) =
     slot_present M controller interrupt_register \<and>
   (\<not> isl (metal_interrupt_enable P controller ident M)) =
     slot_present M controller interrupt_enable \<and>
   (\<not> isl (metal_interrupt_disable P controller ident M)) =
     slot_present M controller interrupt_disable \<and>
   (\<not> isl (metal_interrupt_vector_enable P controller ident mode M)) =
     slot_present M controller interrupt_vector_enable \<and>
   (\<not> isl (metal_interrupt_set_threshold P controller level M)) =
     slot_present M controller interrupt_set_threshold \<and>
   (\<not> isl (metal_interrupt_get_threshold P controller M)) =
     slot_present M controller interrupt_get_threshold \<and>
   (\<not> isl (metal_interrupt_set_priority P controller ident priority M)) =
     slot_present M controller interrupt_set_priority \<and>
   (\<not> isl (metal_interrupt_get_priority P controller ident M)) =
     slot_present M controller interrupt_get_priority \<and>
   (\<not> isl (metal_interrupt_vector_disable P controller ident M)) =
     slot_present M controller interrupt_vector_disable \<and>
   (\<not> isl (metal_interrupt_command_request P controller cmd data M)) =
     slot_present M controller command_request \<and>
   returned_value (metal_interrupt_init P controller M) =
     (case load_vtable M controller of
        Inl u \<Rightarrow> Inl u
      | Inr vt \<Rightarrow>
          (case interrupt_init vt of
             None \<Rightarrow> Inl Null_function_call
           | Some f \<Rightarrow> Inr (fst (fn_init P f controller M)))) \<and>
   returned_value (metal_interrupt_register_handler P controller ident handler priv_data M) =
     (case load_vtable M controller of
        Inl u \<Rightarrow> Inl u
      | Inr vt \<Rightarrow>
          (case interrupt_register vt of
             None \<Rightarrow> Inl Null_function_call
           | Some f \<Rightarrow> Inr (fst (fn_register P f controller ident handler priv_data M)))) \<and>
   returned_value (metal_interrupt_enable P controller ident M) =
     (case load_vtable M controller of
        Inl u \<Rightarrow> Inl u
      | Inr vt \<Rightarrow>
          (case interrupt_enable vt of
             None \<Rightarrow> Inl Null_function_call
           | Some f \<Rightarrow> Inr (fst (fn_id P f controller ident M)))) \<and>
   returned_value (metal_interrupt_disable P controller ident M) =
     (case load_vtable M controller of
        Inl u \<Rightarrow> Inl u
      | Inr vt \<Rightarrow>
          (case interrupt_disable vt of
             None \<Rightarrow> Inl Null_function_call
           | Some f \<Rightarrow> Inr (fst (fn_id P f controller ident M)))) \<and>
   returned_value (metal_interrupt_vector_enable P controller ident mode M) =
     (case load_vtable M controller of
        Inl u \<Rightarrow> Inl u
      | Inr vt \<Rightarrow>
          (case interrupt_vector_enable vt of
             None \<Rightarrow> Inl Null_function_call
           | Some f \<Rightarrow> Inr (fst (fn_vector_enable P f controller ident mode M)))) \<and>
   returned_value (metal_interrupt_set_threshold P controller level M) =
     (case load_vtable M controller of
        Inl u \<Rightarrow> Inl u
      | Inr vt \<Rightarrow>
          (case interrupt_set_threshold vt of
             None \<Rightarrow> Inl Null_function_call
           | Some f \<Rightarrow> Inr (fst (fn_set_threshold P f controller level M)))) \<and>
   returned_value (metal_interrupt_get_threshold P controller M) =
     (case load_vtable M controller of
        Inl u \<Rightarrow> Inl u
      | Inr vt \<Rightarrow>
          (case interrupt_get_threshold vt of
             None \<Rightarrow> Inl Null_function_call
           | Some f \<Rightarrow> Inr (fst (fn_get_threshold P f controller M)))) \<and>
   returned_value (metal_interrupt_set_priority P controller ident priority M) =
     (case load_vtable M controller of
        Inl u \<Rightarrow> Inl u
      | Inr vt \<Rightarrow>
          (case interrupt_set_priority vt of
             None \<Rightarrow> Inl Null_function_call
           | Some f \<Rightarrow> Inr (fst (fn_set_priority P f controller ident priority M)))) \<and>
   returned_value (metal_interrupt_get_priority P controller ident M) =
     (case load_vtable M controller of
        Inl u \<Rightarrow> Inl u
      | Inr vt \<Rightarrow>
          (case interrupt_get_priority vt of
             None \<Rightarrow> Inl Null_function_call
           | Some f \<Rightarrow> Inr (fst (fn_get_priority P f controller ident M)))) \<and>
   returned_value (metal_interrupt_vector_disable P controller ident M) =
     (case load_vtable M controller of
        Inl u \<Rightarrow> Inl u
      | Inr vt \<Rightarrow>
          (case interrupt_vector_disable vt of
             None \<Rightarrow> Inl Null_function_call
           | Some f \<Rightarrow> Inr (fst (fn_id P f controller ident M)))) \<and>
   returned_value (metal_interrupt_command_request P controller cmd data M) =
     (case load_vtable M controller of
        Inl u \<Rightarrow> Inl u
      | Inr vt \<Rightarrow>
          (case command_request vt of
             None \<Rightarrow> Inl Null_function_call
           | Some f \<Rightarrow> Inr (fst (fn_command P f controller cmd data M)))) \<and>
   (slot_present M controller interrupt_init \<longrightarrow>
      returned_value (metal_interrupt_init P controller M) = Inr ())"
proof -
  have init_value:
    "slot_present M controller interrupt_init \<longrightarrow>
       returned_value (metal_interrupt_init P controller M) = Inr ()"
    by (simp add: metal_interrupt_init_def slot_present_def returned_value_def
          case_prod_unfold split: sum.split option.split)
  show ?thesis
    unfolding facade_defs dispatch_returns_iff dispatch_returned_value
    using init_value [unfolded metal_interrupt_init_def dispatch_returned_value]
    by simp
qed

theorem facade_call_hands_back_backend_value_witness:
  "slot_present (one_controller full_table []) (Some 16) interrupt_init \<and>
   \<not> isl (metal_interrupt_init recording_code (Some 16) (one_controller full_table [])) \<and>
   returned_value (metal_interrupt_init recording_code (Some 16) (one_controller full_table [])) = Inr () \<and>
   slot_present (one_controller full_table []) (Some 16) interrupt_get_threshold \<and>
   \<not> isl (metal_interrupt_get_threshold recording_code (Some 16) (one_controller full_table [])) \<and>
   fst (fn_get_threshold recording_code 107 (Some 16) (one_controller full_table [])) = 2 \<and>
   returned_value (metal_interrupt_get_threshold recording_code (Some 16) (one_controller full_table [])) = Inr 2 \<and>
   slot_present (one_controller full_table []) (Some 16) interrupt_get_priority \<and>
   fst (fn_get_priority recording_code 109 (Some 16) 5 (one_controller full_table [])) = 3 \<and>
   returned_value (metal_interrupt_get_priority recording_code (Some 16) 5 (one_controller full_table [])) = Inr 3 \<and>
   slot_present (one_controller full_table []) (Some 16) interrupt_enable \<and>
   fst (fn_id recording_code 103 (Some 16) 5 (one_controller full_table [])) = 0 \<and>
   returned_value (metal_interrupt_enable recording_code (Some 16) 5 (one_controller full_table [])) = Inr 0 \<and>
   \<not> slot_present (one_controller empty_table []) (Some 16) interrupt_enable \<and>
   isl (metal_interrupt_enable recording_code (Some 16) 5 (one_controller empty_table [])) \<and>
   returned_value (metal_interrupt_enable recording_code (Some 16) 5 (one_controller empty_table []))
     = Inl Null_function_call \<and>
   \<not> slot_present (one_controller full_table []) None command_request \<and>
   isl (metal_interrupt_command_request recording_code None 7 None (one_controller full_table [])) \<and>
   returned_value (metal_interrupt_command_request recording_code None 7 None (one_controller full_table []))
     = Inl Null_controller_dereference"
  using facade_call_hands_back_backend_value
    [where M = "one_controller full_table []" and controller = "Some 16"
       and P = recording_code and ident = 5]
    facade_call_hands_back_backend_value
    [where M = "one_controller empty_table []" and controller = "Some 16"
       and P = recording_code and ident = 5]
    facade_call_hands_back_backend_value
    [where M = "one_controller full_table []" and controller = None
       and P = recording_code and cmd = 7 and data = None]
  by (simp add: slot_present_def load_vtable_one_controller load_vtable_NULL
        full_table_def empty_table_def recording_code_def)

text \<open>
  C5 as the spec states it fails: initialising a controller whose table has no
  \<open>interrupt_init\<close> neither completes nor returns an error value, and a completed
  initialisation returns the empty value only.
\<close>

theorem init_result_counterexample:
  "metal_interrupt_init recording_code (Some 16) (one_controller empty_table []) = Inl Null_function_call \<and>
   returned_value (metal_interrupt_init recording_code (Some 16) (one_controller full_table [])) = Inr ()"
  by (simp add: metal_interrupt_init_def load_vtable_one_controller empty_table_def
        full_table_def returned_value_def recording_code_def)

subsection \<open>Controllers without priorities\<close>

text \<open>
  C7, as the code has it. For every backend without priority support (the two priority
  slots of its table are null), every interrupt id and every priority,
  \<open>metal_interrupt_get_priority\<close> and \<open>metal_interrupt_set_priority\<close> call through the
  null function pointer: the behaviour is undefined. No \<open>UnsupportedOperation\<close> value
  is returned; no driver function is called on the way.
\<close>

theorem priority_on_backend_without_priority:
  assumes "load_vtable M controller = Inr vt"
    and "interrupt_get_priority vt = None"
    and "interrupt_set_priority vt = None"
  shows
   "metal_interrupt_get_priority P controller ident M = Inl Null_function_call \<and>
    metal_interrupt_set_priority P controller ident priority M = Inl Null_function_call"
proof
  show "metal_interrupt_get_priority P controller ident M = Inl Null_function_call"
    using assms(1,2) by (simp add: metal_interrupt_get_priority_def)
  show "metal_interrupt_set_priority P controller ident priority M = Inl Null_function_call"
    using assms(1,3) by (simp add: metal_interrupt_set_priority_def)
qed

theorem priority_on_backend_without_priority_witness:
  "load_vtable (one_controller no_priority_table []) (Some 16) = Inr no_priority_table \<and>
   interrupt_get_priority no_priority_table = None \<and>
   interrupt_set_priority no_priority_table = None \<and>
   metal_interrupt_get_priority recording_code (Some 16) 5 (one_controller no_priority_table [])
     = Inl Null_function_call \<and>
   metal_interrupt_set_priority recording_code (Some 16) 5 3 (one_controller no_priority_table [])
     = Inl Null_function_call"
proof -
  have slots: "interrupt_get_priority no_priority_table = None"
    "interrupt_set_priority no_priority_table = None"
    by (simp_all add: no_priority_table_def)
  have table: "load_vtable (one_controller no_priority_table []) (Some 16) = Inr no_priority_table"
    by (rule load_vtable_one_controller)
  from priority_on_backend_without_priority
    [OF table slots, where P = recording_code and ident = 5 and priority = 3]
  show ?thesis
    using table slots by simp
qed

text \<open>
  C7 as the spec states it fails: on a controller whose table lacks the priority slots
  only, setting the priority of interrupt 5 does not return \<open>UnsupportedOperation\<close>.
\<close>

theorem set_priority_unsupported_counterexample:
  "metal_interrupt_set_priority recording_code (Some 16) 5 3 (one_controller no_priority_table [])
     = Inl Null_function_call"
  by (simp add: metal_interrupt_set_priority_def load_vtable_one_controller
        no_priority_table_def)

subsection \<open>Directory lookup\<close>

text \<open>
  C6. For every kind and index, \<open>metal_interrupt_get_controller\<close> returns a handle
  registered for the pair during setup if there is one (the handle, when the pair was
  registered once), and the null pointer otherwise. It is a total function: a miss is
  the value \<open>None\<close>, not a fault.
\<close>

theorem get_controller_registered_or_null:
  "((cntrl, ident) \<in> fst ` set dir \<longrightarrow>
      (\<exists>h. metal_interrupt_get_controller dir cntrl ident = Some h \<and>
           ((cntrl, ident), h) \<in> set dir)) \<and>
   ((cntrl, ident) \<notin> fst ` set dir \<longrightarrow>
      metal_interrupt_get_controller dir cntrl ident = None) \<and>
   (distinct (map fst dir) \<longrightarrow> ((cntrl, ident), h) \<in> set dir \<longrightarrow>
      metal_interrupt_get_controller dir cntrl ident = Some h)"
proof (intro conjI impI)
  assume "(cntrl, ident) \<in> fst ` set dir"
  then obtain h where "map_of dir (cntrl, ident) = Some h"
    by (auto dest: weak_map_of_SomeI)
  then show "\<exists>h. metal_interrupt_get_controller dir cntrl ident = Some h \<and>
           ((cntrl, ident), h) \<in> set dir"
    by (auto simp: metal_interrupt_get_controller_def dest: map_of_SomeD)
next
  assume "(cntrl, ident) \<notin> fst ` set dir"
  then show "metal_interrupt_get_controller dir cntrl ident = None"
    by (simp add: metal_interrupt_get_controller_def map_of_eq_None_iff)
next
  assume "distinct (map fst dir)" and "((cntrl, ident), h) \<in> set dir"
  then show "metal_interrupt_get_controller dir cntrl ident = Some h"
    by (simp add: metal_interrupt_get_controller_def)
qed

theorem get_controller_registered_or_null_witness:
  "(METAL_PLIC_CONTROLLER, 0) \<in> fst ` set example_directory \<and>
   distinct (map fst example_directory) \<and>
   ((METAL_PLIC_CONTROLLER, 0), 48) \<in> set example_directory \<and>
   metal_interrupt_get_controller example_directory METAL_PLIC_CONTROLLER 0 = Some 48 \<and>
   (METAL_CLIC_CONTROLLER, 0) \<notin> fst ` set example_directory \<and>
   metal_interrupt_get_controller example_directory METAL_CLIC_CONTROLLER 0 = None \<and>
   (METAL_PLIC_CONTROLLER, 1) \<notin> fst ` set example_directory \<and>
   metal_interrupt_get_controller example_directory METAL_PLIC_CONTROLLER 1 = None"
proof -
  have registered: "distinct (map fst example_directory)"
    "((METAL_PLIC_CONTROLLER, 0), 48) \<in> set example_directory"
    "(METAL_PLIC_CONTROLLER, 0) \<in> fst ` set example_directory"
    by (simp_all add: example_directory_def)
  have missing: "(METAL_CLIC_CONTROLLER, 0) \<notin> fst ` set example_directory"
    "(METAL_PLIC_CONTROLLER, 1) \<notin> fst ` set example_directory"
    by (simp_all add: example_directory_def)
  from get_controller_registered_or_null
    [of METAL_PLIC_CONTROLLER 0 example_directory 48] registered
  have hit: "metal_interrupt_get_controller example_directory METAL_PLIC_CONTROLLER 0 = Some 48"
    by blast
  from get_controller_registered_or_null
    [of METAL_CLIC_CONTROLLER 0 example_directory] missing(1)
  have miss1: "metal_interrupt_get_controller example_directory METAL_CLIC_CONTROLLER 0 = None"
    by blast
  from get_controller_registered_or_null
    [of METAL_PLIC_CONTROLLER 1 example_directory] missing(2)
  have miss2: "metal_interrupt_get_controller example_directory METAL_PLIC_CONTROLLER 1 = None"
    by blast
  from registered missing hit miss1 miss2 show ?thesis
    by simp
qed

subsection \<open>Disabling twice\<close>

lemma same_dispatch_data_load_vtable:
  "same_dispatch_data M M' \<Longrightarrow> load_vtable M' controller = load_vtable M controller"
  by (simp add: same_dispatch_data_def load_vtable_def split: option.split)

lemma spec_interrupt_disable_dispatch_data:
  "same_dispatch_data M (snd (spec_interrupt_disable valid_id controller ident M))"
  by (simp add: spec_interrupt_disable_def same_dispatch_data_def split: option.split)

lemma spec_interrupt_disable_idem:
  "spec_interrupt_disable valid_id controller ident
     (snd (spec_interrupt_disable valid_id controller ident M))
   = spec_interrupt_disable valid_id controller ident M"
  by (simp add: spec_interrupt_disable_def split: option.split)

text \<open>
  The facade adds nothing to a second call: when the function in the disable slot keeps
  the dispatch data and repeats itself, so does \<open>metal_interrupt_disable\<close>.
\<close>

lemma facade_disable_twice:
  assumes table: "load_vtable M controller = Inr vt"
    and slot: "interrupt_disable vt = Some f"
    and keeps: "same_dispatch_data M (snd (fn_id P f controller ident M))"
    and idem: "fn_id P f controller ident (snd (fn_id P f controller ident M))
                 = fn_id P f controller ident M"
  shows "case metal_interrupt_disable P controller ident M of
           Inl u \<Rightarrow> False
         | Inr (r, M') \<Rightarrow> metal_interrupt_disable P controller ident M' = Inr (r, M')"
proof -
  obtain r M' where once: "fn_id P f controller ident M = (r, M')"
    by (cases "fn_id P f controller ident M")
  from table slot once
  have first: "metal_interrupt_disable P controller ident M = Inr (r, M')"
    by (simp add: metal_interrupt_disable_def)
  from keeps once have "load_vtable M' controller = load_vtable M controller"
    by (simp add: same_dispatch_data_load_vtable)
  with table have table': "load_vtable M' controller = Inr vt"
    by simp
  from idem once have "fn_id P f controller ident M' = (r, M')"
    by simp
  with table' slot have "metal_interrupt_disable P controller ident M' = Inr (r, M')"
    by (simp add: metal_interrupt_disable_def)
  with first show ?thesis
    by simp
qed

text \<open>
  C8. For every valid controller handle whose disable slot holds the backend's disable
  function, and every interrupt id: \<open>metal_interrupt_disable\<close> returns, and a second
  call in the memory the first one left returns the same value and leaves that memory
  as it is. The state after two calls is the state after one.
\<close>

theorem disable_twice_is_disable_once:
  assumes "load_vtable M controller = Inr vt"
    and "interrupt_disable vt = Some f"
    and "fn_id P f = spec_interrupt_disable valid_id"
  shows "case metal_interrupt_disable P controller ident M of
           Inl u \<Rightarrow> False
         | Inr (r, M') \<Rightarrow> metal_interrupt_disable P controller ident M' = Inr (r, M')"
  using assms(1,2)
proof (rule facade_disable_twice)
  show "same_dispatch_data M (snd (fn_id P f controller ident M))"
    by (simp add: assms(3) spec_interrupt_disable_dispatch_data)
  show "fn_id P f controller ident (snd (fn_id P f controller ident M))
          = fn_id P f controller ident M"
    by (simp add: assms(3) spec_interrupt_disable_idem)
qed

theorem disable_twice_is_disable_once_witness:
  "load_vtable (one_controller full_table all_enabled) (Some 16) = Inr full_table \<and>
   interrupt_disable full_table = Some 104 \<and>
   fn_id disable_only_code 104 = spec_interrupt_disable (\<lambda>i. i < 32) \<and>
   metal_interrupt_disable disable_only_code (Some 16) 5 (one_controller full_table all_enabled)
     = Inr (0, one_controller full_table
                 (all_enabled(16 := \<lparr>registry = Map.empty, enabled = (\<lambda>i. True)(5 := False)\<rparr>))) \<and>
   metal_interrupt_disable disable_only_code (Some 16) 5
       (one_controller full_table
          (all_enabled(16 := \<lparr>registry = Map.empty, enabled = (\<lambda>i. True)(5 := False)\<rparr>)))
     = Inr (0, one_controller full_table
                 (all_enabled(16 := \<lparr>registry = Map.empty, enabled = (\<lambda>i. True)(5 := False)\<rparr>)))"
proof -
  have table: "load_vtable (one_controller full_table all_enabled) (Some 16) = Inr full_table"
    by (rule load_vtable_one_controller)
  have slot: "interrupt_disable full_table = Some 104"
    by (simp add: full_table_def)
  have code: "fn_id disable_only_code 104 = spec_interrupt_disable (\<lambda>i. i < 32)"
    by (simp add: disable_only_code_def)
  have first:
    "metal_interrupt_disable disable_only_code (Some 16) 5 (one_controller full_table all_enabled)
     = Inr (0, one_controller full_table
                 (all_enabled(16 := \<lparr>registry = Map.empty, enabled = (\<lambda>i. True)(5 := False)\<rparr>)))"
    by (simp add: metal_interrupt_disable_def load_vtable_one_controller slot code
          spec_interrupt_disable_def priv_one_controller priv_update_one_controller
          all_enabled_def)
  from disable_twice_is_disable_once [OF table slot code, of 5] first
  have second:
    "metal_interrupt_disable disable_only_code (Some 16) 5
       (one_controller full_table
          (all_enabled(16 := \<lparr>registry = Map.empty, enabled = (\<lambda>i. True)(5 := False)\<rparr>)))
     = Inr (0, one_controller full_table
                 (all_enabled(16 := \<lparr>registry = Map.empty, enabled = (\<lambda>i. True)(5 := False)\<rparr>)))"
    by simp
  from table slot code first second show ?thesis
    by simp
qed

subsection \<open>The handle's table reference\<close>




subsection \<open>Determinism of the dispatch\<close>

text \<open>
  C10. Take two calls of the same facade function with the same arguments, on handles
  (in any two memories) that carry the same capability table. If the slot is null both
  calls are the same undefined step, the call through the null pointer. Otherwise both
  invoke the same function, the one in that slot of the table, once, with the handle
  and the caller's arguments, and the outcome of each call is the outcome of that
  invocation; so whenever the function returns equal values in the two invocations,
  the facade calls return equal values. Nothing but the handle, its table and the
  driver function enters the outcome.
\<close>

theorem facade_outcome_determined_by_table:
  assumes "load_vtable M1 c1 = Inr vt"
    and "load_vtable M2 c2 = Inr vt"
  shows
   "(interrupt_init vt = None \<longrightarrow>
       metal_interrupt_init P c1 M1 = Inl Null_function_call \<and>
       metal_interrupt_init P c2 M2 = Inl Null_function_call) \<and>
    (\<forall>f. interrupt_init vt = Some f \<longrightarrow>
       metal_interrupt_init P c1 M1 = Inr (fn_init P f c1 M1) \<and>
       metal_interrupt_init P c2 M2 = Inr (fn_init P f c2 M2)) \<and>
    ((\<forall>f. interrupt_init vt = Some f \<longrightarrow>
          fst (fn_init P f c1 M1) = fst (fn_init P f c2 M2)) \<longrightarrow>
       returned_value (metal_interrupt_init P c1 M1) =
       returned_value (metal_interrupt_init P c2 M2)) \<and>
    (interrupt_register vt = None \<longrightarrow>
       metal_interrupt_register_handler P c1 ident handler priv_data M1 = Inl Null_function_call \<and>
       metal_interrupt_register_handler P c2 ident handler priv_data M2 = Inl Null_function_call) \<and>
    (\<forall>f. interrupt_register vt = Some f \<longrightarrow>
       metal_interrupt_register_handler P c1 ident handler priv_data M1 = Inr (fn_register P f c1 ident handler priv_data M1) \<and>
       metal_interrupt_register_handler P c2 ident handler priv_data M2 = Inr (fn_register P f c2 ident handler priv_data M2)) \<and>
    ((\<forall>f. interrupt_register vt = Some f \<longrightarrow>
          fst (fn_register P f c1 ident handler priv_data M1) = fst (fn_register P f c2 ident handler priv_data M2)) \<longrightarrow>
       returned_value (metal_interrupt_register_handler P c1 ident handler priv_data M1) =
       returned_value (metal_interrupt_register_handler P c2 ident handler priv_data M2)) \<and>
    (interrupt_enable vt = None \<longrightarrow>
       metal_interrupt_enable P c1 ident M1 = Inl Null_function_call \<and>
       metal_interrupt_enable P c2 ident M2 = Inl Null_function_call) \<and>
    (\<forall>f. interrupt_enable vt = Some f \<longrightarrow>
       metal_interrupt_enable P c1 ident M1 = Inr (fn_id P f c1 ident M1) \<and>
       metal_interrupt_enable P c2 ident M2 = Inr (fn_id P f c2 ident M2)) \<and>
    ((\<forall>f. interrupt_enable vt = Some f \<longrightarrow>
          fst (fn_id P f c1 ident M1) = fst (fn_id P f c2 ident M2)) \<longrightarrow>
       returned_value (metal_interrupt_enable P c1 ident M1) =
       returned_value (metal_interrupt_enable P c2 ident M2)) \<and>
    (interrupt_disable vt = None \<longrightarrow>
       metal_interrupt_disable P c1 ident M1 = Inl Null_function_call \<and>
       metal_interrupt_disable P c2 ident M2 = Inl Null_function_call) \<and>
    (\<forall>f. interrupt_disable vt = Some f \<longrightarrow>
       metal_interrupt_disable P c1 ident M1 = Inr (fn_id P f c1 ident M1) \<and>
       metal_interrupt_disable P c2 ident M2 = Inr (fn_id P f c2 ident M2)) \<and>
    ((\<forall>f. interrupt_disable vt = Some f \<longrightarrow>
          fst (fn_id P f c1 ident M1) = fst (fn_id P f c2 ident M2)) \<longrightarrow>
       returned_value (metal_interrupt_disable P c1 ident M1) =
       returned_value (metal_interrupt_disable P c2 ident M2)) \<and>
    (interrupt_vector_enable vt = None \<longrightarrow>
       metal_interrupt_vector_enable P c1 ident mode M1 = Inl Null_function_call \<and>
       metal_interrupt_vector_enable P c2 ident mode M2 = Inl Null_function_call) \<and>
    (\<forall>f. interrupt_vector_enable vt = Some f \<longrightarrow>
       metal_interrupt_vector_enable P c1 ident mode M1 = Inr (fn_vector_enable P f c1 ident mode M1) \<and>
       metal_interrupt_vector_enable P c2 ident mode M2 = Inr (fn_vector_enable P f c2 ident mode M2)) \<and>
    ((\<forall>f. interrupt_vector_enable vt = Some f \<longrightarrow>
          fst (fn_vector_enable P f c1 ident mode M1) = fst (fn_vector_enable P f c2 ident mode M2)) \<longrightarrow>
       returned_value (metal_interrupt_vector_enable P c1 ident mode M1) =
       returned_value (metal_interrupt_vector_enable P c2 ident mode M2)) \<and>
    (interrupt_set_threshold vt = None \<longrightarrow>
       metal_interrupt_set_threshold P c1 level M1 = Inl Null_function_call \<and>
       metal_interrupt_set_threshold P c2 level M2 = Inl Null_function_call) \<and>
    (\<forall>f. interrupt_set_threshold vt = Some f \<longrightarrow>
       metal_interrupt_set_threshold P c1 level M1 = Inr (fn_set_threshold P f c1 level M1) \<and>
       metal_interrupt_set_threshold P c2 level M2 = Inr (fn_set_threshold P f c2 level M2)) \<and>
    ((\<forall>f. interrupt_set_threshold vt = Some f \<longrightarrow>
          fst (fn_set_threshold P f c1 level M1) = fst (fn_set_threshold P f c2 level M2)) \<longrightarrow>
       returned_value (metal_interrupt_set_threshold P c1 level M1) =
       returned_value (metal_interrupt_set_threshold P c2 level M2)) \<and>
    (interrupt_get_threshold vt = None \<longrightarrow>
       metal_interrupt_get_threshold P c1 M1 = Inl Null_function_call \<and>
       metal_interrupt_get_threshold P c2 M2 = Inl Null_function_call) \<and>
    (\<forall>f. interrupt_get_threshold vt = Some f \<longrightarrow>
       metal_interrupt_get_threshold P c1 M1 = Inr (fn_get_threshold P f c1 M1) \<and>
       metal_interrupt_get_threshold P c2 M2 = Inr (fn_get_threshold P f c2 M2)) \<and>
    ((\<forall>f. interrupt_get_threshold vt = Some f \<longrightarrow>
          fst (fn_get_threshold P f c1 M1) = fst (fn_get_threshold P f c2 M2)) \<longrightarrow>
       returned_value (metal_interrupt_get_threshold P c1 M1) =
       returned_value (metal_interrupt_get_threshold P c2 M2)) \<and>
    (interrupt_set_priority vt = None \<longrightarrow>
       metal_interrupt_set_priority P c1 ident priority M1 = Inl Null_function_call \<and>
       metal_interrupt_set_priority P c2 ident priority M2 = Inl Null_function_call) \<and>
    (\<forall>f. interrupt_set_priority vt = Some f \<longrightarrow>
       metal_interrupt_set_priority P c1 ident priority M1 = Inr (fn_set_priority P f c1 ident priority M1) \<and>
       metal_interrupt_set_priority P c2 ident priority M2 = Inr (fn_set_priority P f c2 ident priority M2)) \<and>
    ((\<forall>f. interrupt_set_priority vt = Some f \<longrightarrow>
          fst (fn_set_priority P f c1 ident priority M1) = fst (fn_set_priority P f c2 ident priority M2)) \<longrightarrow>
       returned_value (metal_interrupt_set_priority P c1 ident priority M1) =
       returned_value (metal_interrupt_set_priority P c2 ident priority M2)) \<and>
    (interrupt_get_priority vt = None \<longrightarrow>
       metal_interrupt_get_priority P c1 ident M1 = Inl Null_function_call \<and>
       metal_interrupt_get_priority P c2 ident M2 = Inl Null_function_call) \<and>
    (\<forall>f. interrupt_get_priority vt = Some f \<longrightarrow>
       metal_interrupt_get_priority P c1 ident M1 = Inr (fn_get_priority P f c1 ident M1) \<and>
       metal_interrupt_get_priority P c2 ident M2 = Inr (fn_get_priority P f c2 ident M2)) \<and>
    ((\<forall>f. interrupt_get_priority vt = Some f \<longrightarrow>
          fst (fn_get_priority P f c1 ident M1) = fst (fn_get_priority P f c2 ident M2)) \<longrightarrow>
       returned_value (metal_interrupt_get_priority P c1 ident M1) =
       returned_value (metal_interrupt_get_priority P c2 ident M2)) \<and>
    (interrupt_vector_disable vt = None \<longrightarrow>
       metal_interrupt_vector_disable P c1 ident M1 = Inl Null_function_call \<and>
       metal_interrupt_vector_disable P c2 ident M2 = Inl Null_function_call) \<and>
    (\<forall>f. interrupt_vector_disable vt = Some f \<longrightarrow>
       metal_interrupt_vector_disable P c1 ident M1 = Inr (fn_id P f c1 ident M1) \<and>
       metal_interrupt_vector_disable P c2 ident M2 = Inr (fn_id P f c2 ident M2)) \<and>
    ((\<forall>f. interrupt_vector_disable vt = Some f \<longrightarrow>
          fst (fn_id P f c1 ident M1) = fst (fn_id P f c2 ident M2)) \<longrightarrow>
       returned_value (metal_interrupt_vector_disable P c1 ident M1) =
       returned_value (metal_interrupt_vector_disable P c2 ident M2)) \<and>
    (command_request vt = None \<longrightarrow>
       metal_interrupt_command_request P c1 cmd data M1 = Inl Null_function_call \<and>
       metal_interrupt_command_request P c2 cmd data M2 = Inl Null_function_call) \<and>
    (\<forall>f. command_request vt = Some f \<longrightarrow>
       metal_interrupt_command_request P c1 cmd data M1 = Inr (fn_command P f c1 cmd data M1) \<and>
       metal_interrupt_command_request P c2 cmd data M2 = Inr (fn_command P f c2 cmd data M2)) \<and>
    ((\<forall>f. command_request vt = Some f \<longrightarrow>
          fst (fn_command P f c1 cmd data M1) = fst (fn_command P f c2 cmd data M2)) \<longrightarrow>
       returned_value (metal_interrupt_command_request P c1 cmd data M1) =
       returned_value (metal_interrupt_command_request P c2 cmd data M2))"
  using assms
  by (simp add: facade_defs returned_value_def case_prod_unfold split: option.split)

theorem facade_outcome_determined_by_table_witness:
  "load_vtable (one_controller full_table []) (Some 16) = Inr full_table \<and>
   load_vtable (other_controller full_table [Called_init 101 (Some 48)]) (Some 48) = Inr full_table \<and>
   interrupt_init full_table = Some 101 \<and>
   metal_interrupt_init recording_code (Some 16) (one_controller full_table []) =
     Inr ((), one_controller full_table [Called_init 101 (Some 16)]) \<and>
   metal_interrupt_init recording_code (Some 48) (other_controller full_table [Called_init 101 (Some 48)]) =
     Inr ((), other_controller full_table
            [Called_init 101 (Some 48), Called_init 101 (Some 48)]) \<and>
   returned_value (metal_interrupt_init recording_code (Some 16) (one_controller full_table [])) =
   returned_value (metal_interrupt_init recording_code (Some 48) (other_controller full_table [Called_init 101 (Some 48)])) \<and>
   interrupt_register full_table = Some 102 \<and>
   metal_interrupt_register_handler recording_code (Some 16) 5 (Some 200) None (one_controller full_table []) =
     Inr (0, one_controller full_table [Called_register 102 (Some 16) 5 (Some 200) None]) \<and>
   metal_interrupt_register_handler recording_code (Some 48) 5 (Some 200) None (other_controller full_table [Called_init 101 (Some 48)]) =
     Inr (0, other_controller full_table
            [Called_init 101 (Some 48), Called_register 102 (Some 48) 5 (Some 200) None]) \<and>
   returned_value (metal_interrupt_register_handler recording_code (Some 16) 5 (Some 200) None (one_controller full_table [])) =
   returned_value (metal_interrupt_register_handler recording_code (Some 48) 5 (Some 200) None (other_controller full_table [Called_init 101 (Some 48)])) \<and>
   interrupt_enable full_table = Some 103 \<and>
   metal_interrupt_enable recording_code (Some 16) 5 (one_controller full_table []) =
     Inr (0, one_controller full_table [Called_id 103 (Some 16) 5]) \<and>
   metal_interrupt_enable recording_code (Some 48) 5 (other_controller full_table [Called_init 101 (Some 48)]) =
     Inr (0, other_controller full_table
            [Called_init 101 (Some 48), Called_id 103 (Some 48) 5]) \<and>
   returned_value (metal_interrupt_enable recording_code (Some 16) 5 (one_controller full_table [])) =
   returned_value (metal_interrupt_enable recording_code (Some 48) 5 (other_controller full_table [Called_init 101 (Some 48)])) \<and>
   interrupt_disable full_table = Some 104 \<and>
   metal_interrupt_disable recording_code (Some 16) 5 (one_controller full_table []) =
     Inr (0, one_controller full_table [Called_id 104 (Some 16) 5]) \<and>
   metal_interrupt_disable recording_code (Some 48) 5 (other_controller full_table [Called_init 101 (Some 48)]) =
     Inr (0, other_controller full_table
            [Called_init 101 (Some 48), Called_id 104 (Some 48) 5]) \<and>
   returned_value (metal_interrupt_disable recording_code (Some 16) 5 (one_controller full_table [])) =
   returned_value (metal_interrupt_disable recording_code (Some 48) 5 (other_controller full_table [Called_init 101 (Some 48)])) \<and>
   interrupt_vector_enable full_table = Some 105 \<and>
   metal_interrupt_vector_enable recording_code (Some 16) 5 METAL_VECTOR_MODE (one_controller full_table []) =
     Inr (0, one_controller full_table [Called_vector_enable 105 (Some 16) 5 METAL_VECTOR_MODE]) \<and>
   metal_interrupt_vector_enable recording_code (Some 48) 5 METAL_VECTOR_MODE (other_controller full_table [Called_init 101 (Some 48)]) =
     Inr (0, other_controller full_table
            [Called_init 101 (Some 48), Called_vector_enable 105 (Some 48) 5 METAL_VECTOR_MODE]) \<and>
   returned_value (metal_interrupt_vector_enable recording_code (Some 16) 5 METAL_VECTOR_MODE (one_controller full_table [])) =
   returned_value (metal_interrupt_vector_enable recording_code (Some 48) 5 METAL_VECTOR_MODE (other_controller full_table [Called_init 101 (Some 48)])) \<and>
   interrupt_set_threshold full_table = Some 108 \<and>
   metal_interrupt_set_threshold recording_code (Some 16) 2 (one_controller full_table []) =
     Inr (0, one_controller full_table [Called_set_threshold 108 (Some 16) 2]) \<and>
   metal_interrupt_set_threshold recording_code (Some 48) 2 (other_controller full_table [Called_init 101 (Some 48)]) =
     Inr (0, other_controller full_table
            [Called_init 101 (Some 48), Called_set_threshold 108 (Some 48) 2]) \<and>
   returned_value (metal_interrupt_set_threshold recording_code (Some 16) 2 (one_controller full_table [])) =
   returned_value (metal_interrupt_set_threshold recording_code (Some 48) 2 (other_controller full_table [Called_init 101 (Some 48)])) \<and>
   interrupt_get_threshold full_table = Some 107 \<and>
   metal_interrupt_get_threshold recording_code (Some 16) (one_controller full_table []) =
     Inr (2, one_controller full_table [Called_get_threshold 107 (Some 16)]) \<and>
   metal_interrupt_get_threshold recording_code (Some 48) (other_controller full_table [Called_init 101 (Some 48)]) =
     Inr (2, other_controller full_table
            [Called_init 101 (Some 48), Called_get_threshold 107 (Some 48)]) \<and>
   returned_value (metal_interrupt_get_threshold recording_code (Some 16) (one_controller full_table [])) =
   returned_value (metal_interrupt_get_threshold recording_code (Some 48) (other_controller full_table [Called_init 101 (Some 48)])) \<and>
   interrupt_set_priority full_table = Some 110 \<and>
   metal_interrupt_set_priority recording_code (Some 16) 5 3 (one_controller full_table []) =
     Inr (0, one_controller full_table [Called_set_priority 110 (Some 16) 5 3]) \<and>
   metal_interrupt_set_priority recording_code (Some 48) 5 3 (other_controller full_table [Called_init 101 (Some 48)]) =
     Inr (0, other_controller full_table
            [Called_init 101 (Some 48), Called_set_priority 110 (Some 48) 5 3]) \<and>
   returned_value (metal_interrupt_set_priority recording_code (Some 16) 5 3 (one_controller full_table [])) =
   returned_value (metal_interrupt_set_priority recording_code (Some 48) 5 3 (other_controller full_table [Called_init 101 (Some 48)])) \<and>
   interrupt_get_priority full_table = Some 109 \<and>
   metal_interrupt_get_priority recording_code (Some 16) 5 (one_controller full_table []) =
     Inr (3, one_controller full_table [Called_get_priority 109 (Some 16) 5]) \<and>
   metal_interrupt_get_priority recording_code (Some 48) 5 (other_controller full_table [Called_init 101 (Some 48)]) =
     Inr (3, other_controller full_table
            [Called_init 101 (Some 48), Called_get_priority 109 (Some 48) 5]) \<and>
   returned_value (metal_interrupt_get_priority recording_code (Some 16) 5 (one_controller full_table [])) =
   returned_value (metal_interrupt_get_priority recording_code (Some 48) 5 (other_controller full_table [Called_init 101 (Some 48)])) \<and>
   interrupt_vector_disable full_table = Some 106 \<and>
   metal_interrupt_vector_disable recording_code (Some 16) 5 (one_controller full_table []) =
     Inr (0, one_controller full_table [Called_id 106 (Some 16) 5]) \<and>
   metal_interrupt_vector_disable recording_code (Some 48) 5 (other_controller full_table [Called_init 101 (Some 48)]) =
     Inr (0, other_controller full_table
            [Called_init 101 (Some 48), Called_id 106 (Some 48) 5]) \<and>
   returned_value (metal_interrupt_vector_disable recording_code (Some 16) 5 (one_controller full_table [])) =
   returned_value (metal_interrupt_vector_disable recording_code (Some 48) 5 (other_controller full_table [Called_init 101 (Some 48)])) \<and>
   command_request full_table = Some 111 \<and>
   metal_interrupt_command_request recording_code (Some 16) 7 None (one_controller full_table []) =
     Inr (0, one_controller full_table [Called_command 111 (Some 16) 7 None]) \<and>
   metal_interrupt_command_request recording_code (Some 48) 7 None (other_controller full_table [Called_init 101 (Some 48)]) =
     Inr (0, other_controller full_table
            [Called_init 101 (Some 48), Called_command 111 (Some 48) 7 None]) \<and>
   returned_value (metal_interrupt_command_request recording_code (Some 16) 7 None (one_controller full_table [])) =
   returned_value (metal_interrupt_command_request recording_code (Some 48) 7 None (other_controller full_table [Called_init 101 (Some 48)]))"
proof -
  have first: "load_vtable (one_controller full_table []) (Some 16) = Inr full_table"
    by (rule load_vtable_one_controller)
  have second:
    "load_vtable (other_controller full_table [Called_init 101 (Some 48)]) (Some 48)
       = Inr full_table"
    by (rule load_vtable_other_controller)
  note both =
    facade_outcome_determined_by_table
      [OF first second, where P = recording_code
       and ident = 5 and handler = "Some 200"
       and priv_data = None and mode = METAL_VECTOR_MODE and level = 2 and priority = 3
       and cmd = 7 and data = None]
  have slots: "interrupt_init full_table = Some 101 \<and>
      interrupt_register full_table = Some 102 \<and>
      interrupt_enable full_table = Some 103 \<and>
      interrupt_disable full_table = Some 104 \<and>
      interrupt_vector_enable full_table = Some 105 \<and>
      interrupt_set_threshold full_table = Some 108 \<and>
      interrupt_get_threshold full_table = Some 107 \<and>
      interrupt_set_priority full_table = Some 110 \<and>
      interrupt_get_priority full_table = Some 109 \<and>
      interrupt_vector_disable full_table = Some 106 \<and>
      command_request full_table = Some 111"
    by (simp add: full_table_def)
  from both slots first second show ?thesis
    by (simp add: recording_code_def record_call_one_controller
          record_call_other_controller returned_value_def)
qed

end
